theory Spec2Isabelle
  imports Main "HOL-Library.AList"
begin

section \<open>JavaScript values\<close>

text \<open>
  The values that flow through \<^verbatim>\<open>src/lib/server.ts\<close>. An object is the list of its own
  enumerable properties in insertion order; a function value carries no enumerable
  property of its own. Numbers are the integral ones plus \<^verbatim>\<open>NaN\<close>.
\<close>

datatype jsval =
    JUndefined
  | JNull
  | JBool bool
  | JNum int
  | JNaN
  | JStr string
  | JObj "(string \<times> jsval) list"
  | JFun "unit \<Rightarrow> jsval"

type_synonym props = "(string \<times> jsval) list"

text \<open>JavaScript's truthiness, as tested by \<^verbatim>\<open>if (v)\<close>, \<^verbatim>\<open>v && w\<close> and \<^verbatim>\<open>v ? a : b\<close>.\<close>

fun truthy :: "jsval \<Rightarrow> bool" where
  "truthy JUndefined = False"
| "truthy JNull = False"
| "truthy (JBool b) = b"
| "truthy (JNum n) = (n \<noteq> 0)"
| "truthy JNaN = False"
| "truthy (JStr s) = (s \<noteq> [])"
| "truthy (JObj ps) = True"
| "truthy (JFun f) = True"

text \<open>\<^verbatim>\<open>a && b\<close>: the left operand when it is falsy, the right one otherwise.\<close>

definition js_and :: "jsval \<Rightarrow> jsval \<Rightarrow> jsval" where
  "js_and a b = (if truthy a then b else a)"

text \<open>Decimal rendering of a number, as a template literal interpolates it.\<close>

fun show_nat :: "nat \<Rightarrow> string" where
  "show_nat n =
     (if n < 10 then [''0123456789'' ! n]
      else show_nat (n div 10) @ [''0123456789'' ! (n mod 10)])"

declare show_nat.simps [simp del]

definition show_int :: "int \<Rightarrow> string" where
  "show_int i = (if i < 0 then ''-'' @ show_nat (nat (- i)) else show_nat (nat i))"

text \<open>
  The own enumerable properties of a value, as \<^verbatim>\<open>Object.assign\<close> reads its source:
  an object's properties, a string's characters under their indices, and nothing for
  any other primitive or for a function (\<^verbatim>\<open>name\<close> and \<^verbatim>\<open>length\<close> are not enumerable).
\<close>

fun own_enumerable :: "jsval \<Rightarrow> props" where
  "own_enumerable (JObj ps) = ps"
| "own_enumerable (JStr s) = map (\<lambda>(i, c). (show_nat i, JStr [c])) (enumerate 0 s)"
| "own_enumerable v = []"

text \<open>
  \<^verbatim>\<open>Object.assign(target, source)\<close>: every property of the source is written to the
  target, in the source's order; an existing key keeps its place, a new one is appended.
\<close>

definition Object_assign :: "props \<Rightarrow> props \<Rightarrow> props" where
  "Object_assign target source = fold (\<lambda>(k, v). AList.update k v) source target"

text \<open>
  \<^verbatim>\<open>v.k\<close> for the keys the server reads (\<^verbatim>\<open>url\<close>, \<^verbatim>\<open>code\<close>, \<^verbatim>\<open>stack\<close>), on a value that is
  neither \<^verbatim>\<open>null\<close> nor \<^verbatim>\<open>undefined\<close>: an object answers with its property, and a
  primitive or a function has none of these keys.
\<close>

fun get_prop :: "jsval \<Rightarrow> string \<Rightarrow> jsval" where
  "get_prop (JObj ps) k = (case map_of ps k of Some v \<Rightarrow> v | None \<Rightarrow> JUndefined)"
| "get_prop v k = JUndefined"

section \<open>The host: environment variables, paths and files\<close>

record host =
  NODE_ENV :: "string option"
  MICRO_CACHE :: "string option"
  path_resolve :: "string \<Rightarrow> string \<Rightarrow> string"
  readFileSync :: "string \<Rightarrow> string option"
  require :: "string \<Rightarrow> jsval option"

text \<open>\<^verbatim>\<open>process.env.NODE_ENV === 'production'\<close> and \<^verbatim>\<open>process.env.MICRO_CACHE !== 'false'\<close>.\<close>

definition isProd :: "'a host_scheme \<Rightarrow> bool" where
  "isProd h = (NODE_ENV h = Some ''production'')"

definition useMicroCache :: "'a host_scheme \<Rightarrow> bool" where
  "useMicroCache h = (MICRO_CACHE h \<noteq> Some ''false'')"

section \<open>Requests, responses and the configuration\<close>

record request =
  url :: string
  originalUrl :: string

text \<open>
  What a handler does to its response object and to the console, in program order.
  \<open>Throw\<close> is an exception that ends the handler.
\<close>

datatype effect =
    SetHeader string string
  | Status nat
  | Send jsval
  | Redirect jsval
  | ConsoleError jsval
  | ConsoleLog jsval
  | Throw string

record config =
  projectPath :: string
  template :: string
  faviconURL :: "string option"
  port :: "int option"
  status404 :: jsval
  status500 :: jsval
  "context" :: "request \<Rightarrow> jsval"
  handleError :: "(jsval \<Rightarrow> effect list) option"

definition resolve :: "'a host_scheme \<Rightarrow> 'b config_scheme \<Rightarrow> string \<Rightarrow> string" where
  "resolve h cfg file = path_resolve h (projectPath cfg) file"

section \<open>The renderer factory\<close>

text \<open>
  The bundle renderer of \<^verbatim>\<open>vue-server-renderer\<close> is opaque here: a renderer is the pair
  of arguments \<^verbatim>\<open>createBundleRenderer\<close> was called with. A fresh \<^verbatim>\<open>lru-cache\<close> instance is
  the object of its two settings.
\<close>

datatype renderer = createBundleRenderer jsval props

definition LRU :: "int \<Rightarrow> int \<Rightarrow> jsval" where
  "LRU mx age = JObj [(''max'', JNum mx), (''maxAge'', JNum age)]"

definition createRenderer ::
  "'a host_scheme \<Rightarrow> 'b config_scheme \<Rightarrow> jsval \<Rightarrow> props \<Rightarrow> renderer" where
  "createRenderer h cfg bundle options =
     createBundleRenderer bundle
       (Object_assign options
          [(''cache'', LRU 1000 (1000 * 60 * 15)),
           (''basedir'', JStr (resolve h cfg ''./dist'')),
           (''runInNewContext'', JBool False)])"

fun renderer_options :: "renderer \<Rightarrow> props" where
  "renderer_options (createBundleRenderer bundle options) = options"

section \<open>The request renderer\<close>

text \<open>
  The closure \<^verbatim>\<open>handleError\<close> inside \<^verbatim>\<open>render\<close> (the record field \<open>handleError\<close> is
  \<^verbatim>\<open>config.handleError\<close>). Reading a property of \<^verbatim>\<open>null\<close> or \<^verbatim>\<open>undefined\<close> throws.
  \<^verbatim>\<open>err.code === 404\<close> holds for the number 404 and for nothing else.
\<close>

definition default_handleError :: "'b config_scheme \<Rightarrow> request \<Rightarrow> jsval \<Rightarrow> effect list" where
  "default_handleError cfg req err =
     (if err = JUndefined \<or> err = JNull then [Throw ''TypeError'']
      else if truthy (get_prop err ''url'') then [Redirect (get_prop err ''url'')]
      else if get_prop err ''code'' = JNum 404 then [Status 404, Send (status404 cfg)]
      else [Status 500, Send (status500 cfg),
            ConsoleError (JStr (''error during render : '' @ url req)),
            ConsoleError (get_prop err ''stack'')])"

text \<open>
  The context handed to the renderer. \<^verbatim>\<open>Promise.resolve(() => config.context(req))\<close> is
  fulfilled with its argument, the arrow function, which has no \<^verbatim>\<open>then\<close>; the
  callback of \<^verbatim>\<open>.then\<close> receives that function as \<^verbatim>\<open>context\<close> and passes it to
  \<^verbatim>\<open>Object.assign\<close> as the source.
\<close>

definition render_context :: "'b config_scheme \<Rightarrow> request \<Rightarrow> props" where
  "render_context cfg req =
     (let ctx = JFun (\<lambda>_. context cfg req)
      in Object_assign [(''title'', JStr ''App''), (''url'', JStr (url req))]
           (own_enumerable ctx))"

text \<open>
  \<^verbatim>\<open>render(req, res)\<close>. The renderer handle is read when \<^verbatim>\<open>renderToString\<close> is called
  (\<open>None\<close> is \<^verbatim>\<open>undefined\<close>, whose method call throws); \<open>renderToString\<close> is the external
  renderer: the pair \<^verbatim>\<open>(err, html)\<close> its callback receives, or \<open>None\<close> when it never
  calls back. \<open>s\<close> and \<open>now\<close> are the two readings of \<^verbatim>\<open>Date.now()\<close>.
\<close>

definition render ::
  "'a host_scheme \<Rightarrow> 'b config_scheme \<Rightarrow> renderer option \<Rightarrow>
   (renderer \<Rightarrow> props \<Rightarrow> (jsval \<times> jsval) option) \<Rightarrow> int \<Rightarrow> int \<Rightarrow> request \<Rightarrow> effect list" where
  "render h cfg rdr renderToString s now req =
     SetHeader ''Content-Type'' ''text/html'' #
     (case rdr of
        None \<Rightarrow> [Throw ''TypeError'']
      | Some r \<Rightarrow>
          (case renderToString r (render_context cfg req) of
             None \<Rightarrow> []
           | Some (err, html) \<Rightarrow>
               if truthy err then
                 (case handleError cfg of
                    Some custom \<Rightarrow> custom err
                  | None \<Rightarrow> default_handleError cfg req err)
               else
                 Send html #
                 (if \<not> isProd h
                  then [ConsoleLog (JStr (''whole request: '' @ show_int (now - s) @ ''ms''))]
                  else [])))"

text \<open>
  The response an effect trace leaves behind, on Express's response object: the status
  starts at 200, \<^verbatim>\<open>res.redirect(url)\<close> answers 302 with that location.
\<close>

record response =
  statusCode :: nat
  headers :: "(string \<times> string) list"
  sent :: "jsval list"
  redirects :: "jsval list"

fun respond :: "effect \<Rightarrow> response \<Rightarrow> response" where
  "respond (SetHeader k v) r = r\<lparr>headers := AList.update k v (headers r)\<rparr>"
| "respond (Status n) r = r\<lparr>statusCode := n\<rparr>"
| "respond (Send b) r = r\<lparr>sent := sent r @ [b]\<rparr>"
| "respond (Redirect u) r = r\<lparr>statusCode := 302, redirects := redirects r @ [u]\<rparr>"
| "respond e r = r"

definition response_of :: "effect list \<Rightarrow> response" where
  "response_of es = fold respond es \<lparr>statusCode = 200, headers = [], sent = [], redirects = []\<rparr>"

definition console_error :: "effect list \<Rightarrow> jsval list" where
  "console_error es = concat (map (\<lambda>e. case e of ConsoleError v \<Rightarrow> [v] | _ \<Rightarrow> []) es)"

section \<open>Static assets and the micro-cache\<close>

record static_handler =
  root :: string
  maxAge :: int

definition serve :: "'a host_scheme \<Rightarrow> 'b config_scheme \<Rightarrow> string \<Rightarrow> bool \<Rightarrow> static_handler" where
  "serve h cfg path cache =
     \<lparr>root = resolve h cfg path,
      maxAge = (if cache \<and> isProd h then 1000 * 60 * 60 * 24 * 30 else 0)\<rparr>"

text \<open>The four \<^verbatim>\<open>app.use(route, serve(path, cache))\<close> calls: route, path and flag.\<close>

definition static_mounts :: "(string \<times> string \<times> bool) list" where
  "static_mounts =
     [(''/dist'', ''./dist'', True),
      (''/public'', ''./public'', True),
      (''/manifest.json'', ''./manifest.json'', True),
      (''/service-worker.js'', ''./dist/service-worker.js'', False)]"

definition static_routes ::
  "'a host_scheme \<Rightarrow> 'b config_scheme \<Rightarrow> (string \<times> static_handler) list" where
  "static_routes h cfg = map (\<lambda>(route, path, cache). (route, serve h cfg path cache)) static_mounts"

text \<open>The key function given to the micro-cache: \<^verbatim>\<open>req => useMicroCache && req.originalUrl\<close>.\<close>

definition microcache_key :: "'a host_scheme \<Rightarrow> request \<Rightarrow> jsval" where
  "microcache_key h req = js_and (JBool (useMicroCache h)) (JStr (originalUrl req))"

text \<open>
  Modelled from the spec: the \<^verbatim>\<open>route-cache\<close> package behind
  \<^verbatim>\<open>microcache.cacheSeconds(ttl, keyFn)\<close> is not under src/. By the spec the micro-cache
  is keyed by what the key function answers for the request, lives for \<open>ttl\<close> seconds
  and can be skipped: a request whose key is falsy goes straight downstream, and the
  cache is neither read nor written. What the package does under a truthy key (which
  answers it stores, when an entry expires, how it replays one) is not modelled: it is
  the parameter \<open>cached\<close>, which is given the time to live in seconds, the key, the
  store, the clock and the downstream answer. \<open>downstream\<close> is what the rest of the
  route table answers.
\<close>

definition cacheSeconds ::
  "int \<Rightarrow> (request \<Rightarrow> jsval) \<Rightarrow> (int \<Rightarrow> jsval \<Rightarrow> 's \<Rightarrow> int \<Rightarrow> 'r \<Rightarrow> 'r \<times> 's) \<Rightarrow>
   's \<Rightarrow> int \<Rightarrow> request \<Rightarrow> 'r \<Rightarrow> 'r \<times> 's" where
  "cacheSeconds secondsTTL cacheKey cached store now req downstream =
     (let key = cacheKey req
      in if \<not> truthy key then (downstream, store)
         else cached secondsTTL key store now downstream)"

text \<open>\<^verbatim>\<open>microcache.cacheSeconds(1, req => useMicroCache && req.originalUrl)\<close>.\<close>

definition microcache ::
  "'a host_scheme \<Rightarrow> (int \<Rightarrow> jsval \<Rightarrow> 's \<Rightarrow> int \<Rightarrow> 'r \<Rightarrow> 'r \<times> 's) \<Rightarrow>
   's \<Rightarrow> int \<Rightarrow> request \<Rightarrow> 'r \<Rightarrow> 'r \<times> 's" where
  "microcache h = cacheSeconds 1 (microcache_key h)"

section \<open>Startup and request dispatch\<close>

text \<open>
  The mutable state of \<^verbatim>\<open>server()\<close>: the variables \<^verbatim>\<open>renderer\<close> and \<^verbatim>\<open>readyPromise\<close>
  (\<open>None\<close> is \<^verbatim>\<open>undefined\<close>), and whether the callback that assigns \<^verbatim>\<open>renderer\<close> was
  created and handed out. A pending promise holds the requests of its queued
  \<^verbatim>\<open>() => render(req, res)\<close> callbacks. Two observations are recorded beside them:
  \<open>created\<close> counts the calls of \<^verbatim>\<open>createRenderer\<close>, and \<open>rendered\<close> lists every call of
  \<^verbatim>\<open>render\<close> with the renderer handle it reads.
\<close>

datatype promise = Pending "request list" | Resolved

record server =
  renderer :: "renderer option"
  readyPromise :: "promise option"
  rebuild_callback :: bool
  created :: nat
  rendered :: "(request \<times> renderer option) list"

datatype startup_error = ReadFailed string

definition startup :: "'a host_scheme \<Rightarrow> 'b config_scheme \<Rightarrow> startup_error + server" where
  "startup h cfg =
     (let templatePath = resolve h cfg (template cfg);
          bundlePath = resolve h cfg ''./dist/vue-ssr-server-bundle.json'';
          manifestPath = resolve h cfg ''./dist/vue-ssr-client-manifest.json''
      in if isProd h then
           (case readFileSync h templatePath of
              None \<Rightarrow> Inl (ReadFailed templatePath)
            | Some tpl \<Rightarrow>
                (case require h bundlePath of
                   None \<Rightarrow> Inl (ReadFailed bundlePath)
                 | Some bundle \<Rightarrow>
                     (case require h manifestPath of
                        None \<Rightarrow> Inl (ReadFailed manifestPath)
                      | Some clientManifest \<Rightarrow>
                          Inr \<lparr>renderer =
                                 Some (createRenderer h cfg bundle
                                   [(''template'', JStr tpl),
                                    (''clientManifest'', clientManifest)]),
                               readyPromise = None,
                               rebuild_callback = False,
                               created = 1,
                               rendered = []\<rparr>)))
         else
           Inr \<lparr>renderer = None,
                readyPromise = Some (Pending []),
                rebuild_callback = True,
                created = 0,
                rendered = []\<rparr>)"

text \<open>The callback \<^verbatim>\<open>(bundle, options) => { renderer = createRenderer(bundle, options) }\<close>.\<close>

definition update_renderer ::
  "'a host_scheme \<Rightarrow> 'b config_scheme \<Rightarrow> jsval \<Rightarrow> props \<Rightarrow> server \<Rightarrow> server" where
  "update_renderer h cfg bundle options s =
     s\<lparr>renderer := Some (createRenderer h cfg bundle options), created := Suc (created s)\<rparr>"

text \<open>
  A call of \<^verbatim>\<open>render(req, res)\<close>. Its body runs in promise callbacks of the same turn of
  the event loop, so the handle it reads is the one of the state it is called in.
\<close>

definition dispatch :: "request \<Rightarrow> server \<Rightarrow> server" where
  "dispatch req s = s\<lparr>rendered := rendered s @ [(req, renderer s)]\<rparr>"

text \<open>
  The handler of \<^verbatim>\<open>app.get('*', ...)\<close>: \<^verbatim>\<open>render\<close> itself in production, and
  \<^verbatim>\<open>readyPromise.then(() => render(req, res))\<close> otherwise, which queues the callback on a
  pending promise and runs it at once on a resolved one.
\<close>

definition get_handler :: "'a host_scheme \<Rightarrow> request \<Rightarrow> server \<Rightarrow> server" where
  "get_handler h req s =
     (if isProd h then dispatch req s
      else (case readyPromise s of
              None \<Rightarrow> s
            | Some (Pending waiting) \<Rightarrow> s\<lparr>readyPromise := Some (Pending (waiting @ [req]))\<rparr>
            | Some Resolved \<Rightarrow> dispatch req s))"

text \<open>
  Modelled from the spec: \<^verbatim>\<open>./config/setup-dev-server\<close>, the build watcher of the
  development mode, is not under src/. By the spec it supplies a readiness promise,
  resolved on the first successful build, and invokes the callback it was given on
  every successful build with a fresh bundle and options. A build is one turn of the
  event loop: the callback runs, and when the promise was pending it is resolved and its
  queued callbacks run in their order. In production the watcher is never started and no
  callback exists, so no build can reach the server: the state stays as it is.
\<close>

definition dev_build ::
  "'a host_scheme \<Rightarrow> 'b config_scheme \<Rightarrow> jsval \<Rightarrow> props \<Rightarrow> server \<Rightarrow> server" where
  "dev_build h cfg bundle options s =
     (if \<not> rebuild_callback s then s
      else
        (let s' = update_renderer h cfg bundle options s
         in (case readyPromise s' of
               Some (Pending waiting) \<Rightarrow> fold dispatch waiting (s'\<lparr>readyPromise := Some Resolved\<rparr>)
             | _ \<Rightarrow> s')))"

datatype event = Get request | Built jsval props

fun step :: "'a host_scheme \<Rightarrow> 'b config_scheme \<Rightarrow> event \<Rightarrow> server \<Rightarrow> server" where
  "step h cfg (Get req) s = get_handler h req s"
| "step h cfg (Built bundle options) s = dev_build h cfg bundle options s"

definition run :: "'a host_scheme \<Rightarrow> 'b config_scheme \<Rightarrow> event list \<Rightarrow> server \<Rightarrow> server" where
  "run h cfg evs s = fold (step h cfg) evs s"

section \<open>Example inputs\<close>

text \<open>
  A production host whose project directory \<^verbatim>\<open>/app\<close> holds the template and the two
  build artifacts, the same host in development mode, a configuration whose context
  hook answers \<^verbatim>\<open>{url: "/x"}\<close>, and a request for \<^verbatim>\<open>/a\<close>.
\<close>

definition ex_prod :: host where
  "ex_prod =
     \<lparr>NODE_ENV = Some ''production'',
      MICRO_CACHE = None,
      path_resolve = (\<lambda>dir file. dir @ ''/'' @ file),
      readFileSync = (\<lambda>p. if p = ''/app/index.html'' then Some ''<html></html>'' else None),
      require =
        (\<lambda>p. if p = ''/app/./dist/vue-ssr-server-bundle.json''
               then Some (JObj [(''entry'', JStr ''main.js'')])
             else if p = ''/app/./dist/vue-ssr-client-manifest.json''
               then Some (JObj [(''publicPath'', JStr ''/dist/'')])
             else None)\<rparr>"

definition ex_dev :: host where
  "ex_dev = ex_prod\<lparr>NODE_ENV := Some ''development''\<rparr>"

definition ex_config :: config where
  "ex_config =
     \<lparr>projectPath = ''/app'',
      template = ''index.html'',
      faviconURL = None,
      port = Some 8080,
      status404 = JStr ''404 | Page Not Found'',
      status500 = JStr ''500 | Internal Server Error'',
      context = (\<lambda>req. JObj [(''url'', JStr ''/x'')]),
      handleError = None\<rparr>"

definition ex_request :: request where
  "ex_request = \<lparr>url = ''/a'', originalUrl = ''/a''\<rparr>"

definition ex_renderer :: renderer where
  "ex_renderer = createRenderer ex_prod ex_config (JObj [(''entry'', JStr ''main.js'')]) []"

text \<open>
  A stand-in for the package's cache under a truthy key: it answers with the time to
  live and the key it was called with, and leaves the store alone.
\<close>

definition ex_cached :: "int \<Rightarrow> jsval \<Rightarrow> (string \<times> jsval) list \<Rightarrow> int \<Rightarrow> jsval \<Rightarrow>
    jsval \<times> (string \<times> jsval) list" where
  "ex_cached ttl key store now downstream =
     (JObj [(''ttl'', JNum ttl), (''key'', key)], store)"

text \<open>The state of the production example after a successful startup.\<close>

definition ex_started :: server where
  "ex_started =
     \<lparr>renderer =
        Some (createRenderer ex_prod ex_config (JObj [(''entry'', JStr ''main.js'')])
          [(''template'', JStr ''<html></html>''),
           (''clientManifest'', JObj [(''publicPath'', JStr ''/dist/'')])]),
      readyPromise = None,
      rebuild_callback = False,
      created = 1,
      rendered = []\<rparr>"

section \<open>Auxiliary facts\<close>

lemma map_of_Object_assign:
  "map_of (Object_assign target source) = map_of target ++ map_of (rev source)"
  unfolding Object_assign_def
proof (induction source arbitrary: target)
  case Nil
  show ?case by simp
next
  case (Cons p ps)
  obtain k v where p: "p = (k, v)" by (cases p)
  have "map_of (fold (\<lambda>(k, v). AList.update k v) ps (AList.update k v target))
        = map_of (AList.update k v target) ++ map_of (rev ps)"
    by (rule Cons.IH)
  also have "\<dots> = map_of target ++ map_of (rev ((k, v) # ps))"
    by (simp add: update_conv' map_of_append fun_eq_iff map_add_def split: option.splits)
  finally show ?case by (simp add: p)
qed

lemma fold_dispatch:
  "fold dispatch reqs s = s\<lparr>rendered := rendered s @ map (\<lambda>req. (req, renderer s)) reqs\<rparr>"
  by (induction reqs arbitrary: s) (simp_all add: dispatch_def)

lemma run_Nil [simp]: "run h cfg [] s = s"
  by (simp add: run_def)

lemma run_Cons [simp]: "run h cfg (e # evs) s = run h cfg evs (step h cfg e s)"
  by (simp add: run_def)

lemma run_append: "run h cfg (evs @ evs') s = run h cfg evs' (run h cfg evs s)"
  by (simp add: run_def)

lemma step_rendered_grows: "\<exists>ys. rendered (step h cfg e s) = rendered s @ ys"
  by (cases e)
    (auto simp: get_handler_def dispatch_def dev_build_def update_renderer_def fold_dispatch
      Let_def split: option.splits promise.splits)

lemma run_rendered_grows: "\<exists>ys. rendered (run h cfg evs s) = rendered s @ ys"
proof (induction evs arbitrary: s)
  case Nil
  show ?case by simp
next
  case (Cons e evs)
  obtain ys where a: "rendered (step h cfg e s) = rendered s @ ys"
    using step_rendered_grows by blast
  obtain zs where b: "rendered (run h cfg evs (step h cfg e s)) = rendered (step h cfg e s) @ zs"
    using Cons.IH by blast
  show ?case by (simp add: a b)
qed

lemma dev_gets_wait:
  assumes "\<not> isProd h" and "readyPromise s = Some (Pending waiting)"
  shows "run h cfg (map Get reqs) s = s\<lparr>readyPromise := Some (Pending (waiting @ reqs))\<rparr>"
  using assms
proof (induction reqs arbitrary: s waiting)
  case Nil
  then show ?case by simp
next
  case (Cons req reqs)
  have "step h cfg (Get req) s = s\<lparr>readyPromise := Some (Pending (waiting @ [req]))\<rparr>"
    using Cons.prems by (simp add: get_handler_def)
  moreover have "run h cfg (map Get reqs) (s\<lparr>readyPromise := Some (Pending (waiting @ [req]))\<rparr>)
      = s\<lparr>readyPromise := Some (Pending ((waiting @ [req]) @ reqs))\<rparr>"
    using Cons.IH [of "s\<lparr>readyPromise := Some (Pending (waiting @ [req]))\<rparr>" "waiting @ [req]"]
      Cons.prems(1) by simp
  ultimately show ?case by simp
qed

lemma step_without_callback:
  assumes "\<not> rebuild_callback s"
  shows "renderer (step h cfg e s) = renderer s \<and> created (step h cfg e s) = created s
         \<and> \<not> rebuild_callback (step h cfg e s)"
  using assms
  by (cases e)
    (auto simp: get_handler_def dispatch_def dev_build_def split: option.splits promise.splits)

lemma run_without_callback:
  assumes "\<not> rebuild_callback s"
  shows "renderer (run h cfg evs s) = renderer s \<and> created (run h cfg evs s) = created s
         \<and> \<not> rebuild_callback (run h cfg evs s)"
  using assms
proof (induction evs arbitrary: s)
  case Nil
  then show ?case by simp
next
  case (Cons e evs)
  from step_without_callback [OF Cons.prems, of h cfg e]
  have st: "renderer (step h cfg e s) = renderer s" "created (step h cfg e s) = created s"
    "\<not> rebuild_callback (step h cfg e s)" by simp_all
  from Cons.IH [OF st(3)] st show ?case by simp
qed

lemma ex_prod_isProd: "isProd ex_prod"
  by (simp add: isProd_def ex_prod_def)

section \<open>The render context\<close>

lemma render_context_constant:
  "render_context cfg req = [(''title'', JStr ''App''), (''url'', JStr (url req))]"
  by (simp add: render_context_def Object_assign_def)

text \<open>
  C1. The claim: the render context is the result of the configured context hook, called
  on the request, laid over the defaults \<^verbatim>\<open>{title: "App", url: <request url>}\<close>, so that
  the hook's \<^verbatim>\<open>{url: "/x"}\<close> gives \<^verbatim>\<open>{title: "App", url: "/x"}\<close>. The code wraps the call
  of the hook in an arrow function that nothing invokes, and lays that function over the
  defaults: for the hook answering \<^verbatim>\<open>{url: "/x"}\<close> and a request for \<^verbatim>\<open>/a\<close> the context is
  \<^verbatim>\<open>{title: "App", url: "/a"}\<close>, while the overlay of the hook's answer would be
  \<^verbatim>\<open>{title: "App", url: "/x"}\<close>.
\<close>

theorem render_context_at_hook_url:
  "render_context ex_config ex_request = [(''title'', JStr ''App''), (''url'', JStr ''/a'')]
   \<and> context ex_config ex_request = JObj [(''url'', JStr ''/x'')]
   \<and> Object_assign [(''title'', JStr ''App''), (''url'', JStr (url ex_request))]
        (own_enumerable (context ex_config ex_request))
       = [(''title'', JStr ''App''), (''url'', JStr ''/x'')]
   \<and> render_context ex_config ex_request \<noteq> [(''title'', JStr ''App''), (''url'', JStr ''/x'')]"
  by (simp add: render_context_def Object_assign_def ex_config_def ex_request_def)

section \<open>Outcomes of a render\<close>

text \<open>
  C2. When the renderer reports a failure and no custom handler is configured, the
  failure is classified in this order: a truthy \<^verbatim>\<open>url\<close> field gives a redirect to that
  URL, with nothing sent and nothing logged; otherwise the code 404 gives status 404
  with the configured \<^verbatim>\<open>status404\<close> body; otherwise the status is 500 with the configured
  \<^verbatim>\<open>status500\<close> body, and the error log receives a line holding the request URL and then
  the failure's stack.
\<close>

theorem render_failure_default_classification:
  assumes "handleError cfg = None"
    and "renderToString r (render_context cfg req) = Some (err, html)"
    and "truthy err"
  shows "let es = render h cfg (Some r) renderToString s now req;
             res = response_of es
         in (truthy (get_prop err ''url'') \<longrightarrow>
               redirects res = [get_prop err ''url''] \<and> sent res = [] \<and> console_error es = [])
          \<and> (\<not> truthy (get_prop err ''url'') \<and> get_prop err ''code'' = JNum 404 \<longrightarrow>
               statusCode res = 404 \<and> sent res = [status404 cfg] \<and> redirects res = []
               \<and> console_error es = [])
          \<and> (\<not> truthy (get_prop err ''url'') \<and> get_prop err ''code'' \<noteq> JNum 404 \<longrightarrow>
               statusCode res = 500 \<and> sent res = [status500 cfg] \<and> redirects res = []
               \<and> console_error es =
                   [JStr (''error during render : '' @ url req), get_prop err ''stack''])"
proof -
  from assms(3) have nn: "err \<noteq> JUndefined" "err \<noteq> JNull" by auto
  show ?thesis
    using assms nn
    by (simp add: render_def default_handleError_def response_of_def console_error_def Let_def)
qed

theorem render_failure_default_classification_witness:
  "redirects (response_of (render ex_prod ex_config (Some ex_renderer)
       (\<lambda>r c. Some (JObj [(''url'', JStr ''/foo'')], JUndefined)) 0 5 ex_request))
     = [JStr ''/foo'']
   \<and> sent (response_of (render ex_prod ex_config (Some ex_renderer)
       (\<lambda>r c. Some (JObj [(''url'', JStr ''/foo'')], JUndefined)) 0 5 ex_request)) = []
   \<and> statusCode (response_of (render ex_prod ex_config (Some ex_renderer)
       (\<lambda>r c. Some (JObj [(''code'', JNum 404)], JUndefined)) 0 5 ex_request)) = 404
   \<and> sent (response_of (render ex_prod ex_config (Some ex_renderer)
       (\<lambda>r c. Some (JObj [(''code'', JNum 404)], JUndefined)) 0 5 ex_request))
     = [JStr ''404 | Page Not Found'']
   \<and> statusCode (response_of (render ex_prod ex_config (Some ex_renderer)
       (\<lambda>r c. Some (JObj [(''stack'', JStr ''Error: boom'')], JUndefined)) 0 5 ex_request)) = 500
   \<and> sent (response_of (render ex_prod ex_config (Some ex_renderer)
       (\<lambda>r c. Some (JObj [(''stack'', JStr ''Error: boom'')], JUndefined)) 0 5 ex_request))
     = [JStr ''500 | Internal Server Error'']
   \<and> console_error (render ex_prod ex_config (Some ex_renderer)
       (\<lambda>r c. Some (JObj [(''stack'', JStr ''Error: boom'')], JUndefined)) 0 5 ex_request)
     = [JStr ''error during render : /a'', JStr ''Error: boom'']"
proof -
  have n: "handleError ex_config = None"
    by (simp add: ex_config_def)
  note t = render_failure_default_classification [where cfg = ex_config and r = ex_renderer
      and req = ex_request and html = JUndefined and h = ex_prod and s = 0 and now = 5, OF n]
  from t [where renderToString = "\<lambda>r c. Some (JObj [(''url'', JStr ''/foo'')], JUndefined)"
        and err = "JObj [(''url'', JStr ''/foo'')]"]
    t [where renderToString = "\<lambda>r c. Some (JObj [(''code'', JNum 404)], JUndefined)"
        and err = "JObj [(''code'', JNum 404)]"]
    t [where renderToString = "\<lambda>r c. Some (JObj [(''stack'', JStr ''Error: boom'')], JUndefined)"
        and err = "JObj [(''stack'', JStr ''Error: boom'')]"]
  show ?thesis
    by (simp add: Let_def ex_config_def ex_request_def)
qed

text \<open>
  C3. When the render succeeds with an HTML value, the handler first sets the header
  \<^verbatim>\<open>Content-Type: text/html\<close> and then sends exactly that value; the response has status
  200, that header and that body.
\<close>

theorem render_success_response:
  assumes "renderToString r (render_context cfg req) = Some (err, html)"
    and "\<not> truthy err"
  shows "render h cfg (Some r) renderToString s now req =
           SetHeader ''Content-Type'' ''text/html'' # Send html #
           (if isProd h then []
            else [ConsoleLog (JStr (''whole request: '' @ show_int (now - s) @ ''ms''))])
       \<and> response_of (render h cfg (Some r) renderToString s now req) =
           \<lparr>statusCode = 200, headers = [(''Content-Type'', ''text/html'')],
            sent = [html], redirects = []\<rparr>"
  using assms by (simp add: render_def response_of_def)

theorem render_success_response_witness:
  "render ex_prod ex_config (Some ex_renderer)
       (\<lambda>r c. Some (JNull, JStr ''<html>OK</html>'')) 0 5 ex_request
     = [SetHeader ''Content-Type'' ''text/html'', Send (JStr ''<html>OK</html>'')]
   \<and> response_of (render ex_prod ex_config (Some ex_renderer)
       (\<lambda>r c. Some (JNull, JStr ''<html>OK</html>'')) 0 5 ex_request)
     = \<lparr>statusCode = 200, headers = [(''Content-Type'', ''text/html'')],
        sent = [JStr ''<html>OK</html>''], redirects = []\<rparr>"
  using render_success_response [where cfg = ex_config and r = ex_renderer and req = ex_request
      and renderToString = "\<lambda>r c. Some (JNull, JStr ''<html>OK</html>'')" and err = JNull
      and html = "JStr ''<html>OK</html>''" and h = ex_prod and s = 0 and now = 5]
    ex_prod_isProd
  by (simp add: response_of_def)

text \<open>
  C4. When \<^verbatim>\<open>config.handleError\<close> is configured, every render failure is handed to it and
  what the handler does after setting the content type is what the custom handler does:
  no redirect, 404 or 500 classification of its own.
\<close>

theorem custom_handleError_replaces_default:
  assumes "handleError cfg = Some custom"
    and "renderToString r (render_context cfg req) = Some (err, html)"
    and "truthy err"
  shows "render h cfg (Some r) renderToString s now req =
           SetHeader ''Content-Type'' ''text/html'' # custom err"
  using assms by (simp add: render_def)

theorem custom_handleError_replaces_default_witness:
  "render ex_prod (ex_config\<lparr>handleError := Some (\<lambda>e. [Status 503, Send (JStr ''down'')])\<rparr>)
       (Some ex_renderer) (\<lambda>r c. Some (JObj [(''url'', JStr ''/foo'')], JUndefined)) 0 5 ex_request
     = [SetHeader ''Content-Type'' ''text/html'', Status 503, Send (JStr ''down'')]"
  using custom_handleError_replaces_default
      [where cfg = "ex_config\<lparr>handleError := Some (\<lambda>e. [Status 503, Send (JStr ''down'')])\<rparr>"
        and custom = "\<lambda>e. [Status 503, Send (JStr ''down'')]"
        and r = ex_renderer and req = ex_request
        and renderToString = "\<lambda>r c. Some (JObj [(''url'', JStr ''/foo'')], JUndefined)"
        and err = "JObj [(''url'', JStr ''/foo'')]" and html = JUndefined
        and h = ex_prod and s = 0 and now = 5]
  by simp

section \<open>Readiness and the renderer handle\<close>

text \<open>
  C5. In development mode, requests that arrive before the first build are not rendered
  (they wait on the readiness promise), and the first build renders them, in their
  order, with the renderer made from that build, whatever happens afterwards. In
  production mode a request is rendered at once with the current renderer.
\<close>

theorem dev_requests_wait_for_first_build:
  "(\<not> isProd h \<longrightarrow>
      (\<exists>s0. startup h cfg = Inr s0
         \<and> rendered (run h cfg (map Get reqs) s0) = []
         \<and> take (length reqs) (rendered (run h cfg (map Get reqs @ Built bundle options # evs) s0))
             = map (\<lambda>req. (req, Some (createRenderer h cfg bundle options))) reqs))
   \<and> (isProd h \<longrightarrow>
      rendered (step h cfg (Get req) s) = rendered s @ [(req, renderer s)])"
proof (intro conjI impI)
  assume dev: "\<not> isProd h"
  define s0 where "s0 = \<lparr>renderer = None, readyPromise = Some (Pending []),
        rebuild_callback = True, created = 0, rendered = []\<rparr>"
  have st: "startup h cfg = Inr s0"
    using dev by (simp add: startup_def s0_def Let_def)
  have w: "run h cfg (map Get reqs) s0 = s0\<lparr>readyPromise := Some (Pending reqs)\<rparr>"
    using dev_gets_wait [OF dev, of s0 "[]" cfg reqs] by (simp add: s0_def)
  have r0: "rendered (run h cfg (map Get reqs) s0) = []"
    by (simp add: w) (simp add: s0_def)
  have b: "rendered (step h cfg (Built bundle options) (s0\<lparr>readyPromise := Some (Pending reqs)\<rparr>))
      = map (\<lambda>req. (req, Some (createRenderer h cfg bundle options))) reqs"
    by (simp add: dev_build_def update_renderer_def fold_dispatch s0_def)
  define s1 where "s1 = step h cfg (Built bundle options) (s0\<lparr>readyPromise := Some (Pending reqs)\<rparr>)"
  obtain ys where "rendered (run h cfg evs s1) = rendered s1 @ ys"
    using run_rendered_grows by blast
  then have g: "rendered (run h cfg (map Get reqs @ Built bundle options # evs) s0)
      = map (\<lambda>req. (req, Some (createRenderer h cfg bundle options))) reqs @ ys"
    unfolding run_append w run_Cons using b by (simp only: s1_def)
  have "take (length reqs) (rendered (run h cfg (map Get reqs @ Built bundle options # evs) s0))
      = map (\<lambda>req. (req, Some (createRenderer h cfg bundle options))) reqs"
    by (simp add: g)
  with st r0 show "\<exists>s0. startup h cfg = Inr s0
         \<and> rendered (run h cfg (map Get reqs) s0) = []
         \<and> take (length reqs) (rendered (run h cfg (map Get reqs @ Built bundle options # evs) s0))
             = map (\<lambda>req. (req, Some (createRenderer h cfg bundle options))) reqs"
    by blast
next
  assume "isProd h"
  then show "rendered (step h cfg (Get req) s) = rendered s @ [(req, renderer s)]"
    by (simp add: get_handler_def dispatch_def)
qed

theorem dev_requests_wait_for_first_build_witness:
  "\<not> isProd ex_dev
   \<and> (\<exists>s0. startup ex_dev ex_config = Inr s0
        \<and> rendered (run ex_dev ex_config (map Get [ex_request, ex_request\<lparr>url := ''/b''\<rparr>]) s0) = []
        \<and> take (length [ex_request, ex_request\<lparr>url := ''/b''\<rparr>]) (rendered (run ex_dev ex_config
             (map Get [ex_request, ex_request\<lparr>url := ''/b''\<rparr>]
              @ Built (JStr ''first'') [] # [Built (JStr ''second'') [], Get ex_request]) s0))
           = [(ex_request, Some (createRenderer ex_dev ex_config (JStr ''first'') [])),
              (ex_request\<lparr>url := ''/b''\<rparr>,
               Some (createRenderer ex_dev ex_config (JStr ''first'') []))])
   \<and> isProd ex_prod
   \<and> rendered (step ex_prod ex_config (Get ex_request) ex_started)
       = [(ex_request, renderer ex_started)]"
proof -
  have d: "\<not> isProd ex_dev" and p: "isProd ex_prod"
    by (simp_all add: isProd_def ex_dev_def ex_prod_def)
  have e: "rendered ex_started = []"
    by (simp add: ex_started_def)
  from dev_requests_wait_for_first_build [of ex_dev ex_config
        "[ex_request, ex_request\<lparr>url := ''/b''\<rparr>]" "JStr ''first''" "[]"
        "[Built (JStr ''second'') [], Get ex_request]"] d
  have a: "\<exists>s0. startup ex_dev ex_config = Inr s0
        \<and> rendered (run ex_dev ex_config (map Get [ex_request, ex_request\<lparr>url := ''/b''\<rparr>]) s0) = []
        \<and> take (length [ex_request, ex_request\<lparr>url := ''/b''\<rparr>]) (rendered (run ex_dev ex_config
             (map Get [ex_request, ex_request\<lparr>url := ''/b''\<rparr>]
              @ Built (JStr ''first'') [] # [Built (JStr ''second'') [], Get ex_request]) s0))
           = [(ex_request, Some (createRenderer ex_dev ex_config (JStr ''first'') [])),
              (ex_request\<lparr>url := ''/b''\<rparr>,
               Some (createRenderer ex_dev ex_config (JStr ''first'') []))]"
    by simp
  from dev_requests_wait_for_first_build [of ex_prod ex_config _ _ _ _ ex_request ex_started] p
  have "rendered (step ex_prod ex_config (Get ex_request) ex_started)
       = rendered ex_started @ [(ex_request, renderer ex_started)]"
    by blast
  then have b: "rendered (step ex_prod ex_config (Get ex_request) ex_started)
       = [(ex_request, renderer ex_started)]"
    by (simp only: e append_Nil)
  from a b d p show ?thesis
    by blast
qed

section \<open>The renderer factory and the static routes\<close>

text \<open>
  C6. Every renderer made by \<^verbatim>\<open>createRenderer\<close>, whatever the bundle and the options it
  is given, has as its \<^verbatim>\<open>cache\<close> option a cache of at most 1000 entries that expire after
  15 minutes (in milliseconds), and has \<^verbatim>\<open>runInNewContext\<close> set to \<^verbatim>\<open>false\<close>.
\<close>

theorem createRenderer_cache_settings:
  "map_of (renderer_options (createRenderer h cfg bundle options)) ''cache''
     = Some (JObj [(''max'', JNum 1000), (''maxAge'', JNum (15 * 60 * 1000))])
   \<and> map_of (renderer_options (createRenderer h cfg bundle options)) ''runInNewContext''
     = Some (JBool False)"
  by (simp add: createRenderer_def map_of_Object_assign LRU_def)

theorem createRenderer_cache_settings_witness:
  "map_of (renderer_options (createRenderer ex_prod ex_config (JStr ''bundle'')
      [(''runInNewContext'', JBool True), (''cache'', JNull)])) ''cache''
     = Some (JObj [(''max'', JNum 1000), (''maxAge'', JNum 900000)])
   \<and> map_of (renderer_options (createRenderer ex_prod ex_config (JStr ''bundle'')
      [(''runInNewContext'', JBool True), (''cache'', JNull)])) ''runInNewContext''
     = Some (JBool False)"
  using createRenderer_cache_settings
    [of ex_prod ex_config "JStr ''bundle''" "[(''runInNewContext'', JBool True), (''cache'', JNull)]"]
  by simp

text \<open>
  C7. A static route's \<^verbatim>\<open>maxAge\<close> is 30 days (in milliseconds) exactly when its flag is
  true and the process runs in production mode, and 0 otherwise; \<^verbatim>\<open>/dist\<close>, \<^verbatim>\<open>/public\<close> and
  \<^verbatim>\<open>/manifest.json\<close> are mounted with the flag true and \<^verbatim>\<open>/service-worker.js\<close> with the
  flag false.
\<close>

theorem serve_maxAge:
  "maxAge (serve h cfg path cache) = (if cache \<and> isProd h then 30 * 24 * 60 * 60 * 1000 else 0)
   \<and> map (\<lambda>(route, path, cache). (route, cache)) static_mounts
       = [(''/dist'', True), (''/public'', True), (''/manifest.json'', True),
          (''/service-worker.js'', False)]
   \<and> map (\<lambda>(route, sh). (route, maxAge sh)) (static_routes h cfg)
       = [(''/dist'', if isProd h then 2592000000 else 0),
          (''/public'', if isProd h then 2592000000 else 0),
          (''/manifest.json'', if isProd h then 2592000000 else 0),
          (''/service-worker.js'', 0)]"
  by (simp add: serve_def static_mounts_def static_routes_def)

theorem serve_maxAge_witness:
  "maxAge (serve ex_prod ex_config ''./dist'' True) = 2592000000
   \<and> maxAge (serve ex_prod ex_config ''./dist/service-worker.js'' False) = 0
   \<and> maxAge (serve ex_dev ex_config ''./dist'' True) = 0"
  using serve_maxAge [of ex_prod ex_config "''./dist''" True]
    serve_maxAge [of ex_prod ex_config "''./dist/service-worker.js''" False]
    serve_maxAge [of ex_dev ex_config "''./dist''" True]
  by (simp add: isProd_def ex_prod_def ex_dev_def)

section \<open>The micro-cache\<close>

text \<open>
  C8. With \<^verbatim>\<open>MICRO_CACHE\<close> set to \<^verbatim>\<open>"false"\<close> the key of every request is falsy, so every
  request gets the downstream answer and the cache is neither read nor written,
  whatever it holds. Otherwise the cache is entered with a time to live of one second
  and with the request's \<^verbatim>\<open>originalUrl\<close>, the full request URL, as the key.
\<close>

theorem microcache_toggle:
  "(MICRO_CACHE h = Some ''false'' \<longrightarrow>
      microcache h cached store now req downstream = (downstream, store))
   \<and> (MICRO_CACHE h \<noteq> Some ''false'' \<and> originalUrl req \<noteq> [] \<longrightarrow>
      microcache h cached store now req downstream =
        cached 1 (JStr (originalUrl req)) store now downstream)"
  by (simp add: microcache_def cacheSeconds_def microcache_key_def useMicroCache_def js_and_def)

theorem microcache_toggle_witness:
  "microcache (ex_prod\<lparr>MICRO_CACHE := Some ''false''\<rparr>) ex_cached
       [(''/a'', JStr ''old'')] 10 ex_request (JStr ''new'')
     = (JStr ''new'', [(''/a'', JStr ''old'')])
   \<and> microcache ex_prod ex_cached
       [(''/a'', JStr ''old'')] 10 ex_request (JStr ''new'')
     = (JObj [(''ttl'', JNum 1), (''key'', JStr ''/a'')], [(''/a'', JStr ''old'')])
   \<and> microcache ex_prod ex_cached
       [(''/a'', JStr ''old'')] 10 (ex_request\<lparr>originalUrl := ''/a?page=2''\<rparr>) (JStr ''new'')
     = (JObj [(''ttl'', JNum 1), (''key'', JStr ''/a?page=2'')], [(''/a'', JStr ''old'')])"
  using microcache_toggle [where h = "ex_prod\<lparr>MICRO_CACHE := Some ''false''\<rparr>"
      and cached = ex_cached and store = "[(''/a'', JStr ''old'')]" and now = 10
      and req = ex_request and downstream = "JStr ''new''"]
    microcache_toggle [where h = ex_prod
      and cached = ex_cached and store = "[(''/a'', JStr ''old'')]" and now = 10
      and req = ex_request and downstream = "JStr ''new''"]
    microcache_toggle [where h = ex_prod
      and cached = ex_cached and store = "[(''/a'', JStr ''old'')]" and now = 10
      and req = "ex_request\<lparr>originalUrl := ''/a?page=2''\<rparr>" and downstream = "JStr ''new''"]
  by (simp add: ex_prod_def ex_request_def ex_cached_def)

text \<open>
  C9. In production mode a startup that succeeds has read the template and required
  the server bundle and the client manifest from their fixed paths, has built the
  renderer from them by the one call of \<^verbatim>\<open>createRenderer\<close>, and has created no rebuild
  callback; after any sequence of requests and build events the renderer is the same
  one and \<^verbatim>\<open>createRenderer\<close> has still been called once.
\<close>

theorem production_renderer_set_once:
  assumes "isProd h" and "startup h cfg = Inr s0"
  shows "\<exists>tpl bundle clientManifest.
           readFileSync h (resolve h cfg (template cfg)) = Some tpl
         \<and> require h (resolve h cfg ''./dist/vue-ssr-server-bundle.json'') = Some bundle
         \<and> require h (resolve h cfg ''./dist/vue-ssr-client-manifest.json'') = Some clientManifest
         \<and> renderer s0 = Some (createRenderer h cfg bundle
               [(''template'', JStr tpl), (''clientManifest'', clientManifest)])
         \<and> created s0 = 1 \<and> \<not> rebuild_callback s0
         \<and> (\<forall>evs. renderer (run h cfg evs s0) = renderer s0
                \<and> created (run h cfg evs s0) = 1
                \<and> \<not> rebuild_callback (run h cfg evs s0))"
proof -
  from assms obtain tpl bndl clientManifest where
    f: "readFileSync h (resolve h cfg (template cfg)) = Some tpl"
       "require h (resolve h cfg ''./dist/vue-ssr-server-bundle.json'') = Some bndl"
       "require h (resolve h cfg ''./dist/vue-ssr-client-manifest.json'') = Some clientManifest"
    and s0: "s0 = \<lparr>renderer = Some (createRenderer h cfg bndl
               [(''template'', JStr tpl), (''clientManifest'', clientManifest)]),
             readyPromise = None, rebuild_callback = False, created = 1, rendered = []\<rparr>"
    by (auto simp: startup_def Let_def split: option.splits)
  have nc: "\<not> rebuild_callback s0" by (simp add: s0)
  have c1: "created s0 = 1" by (simp add: s0)
  have "\<forall>evs. renderer (run h cfg evs s0) = renderer s0
                \<and> created (run h cfg evs s0) = 1
                \<and> \<not> rebuild_callback (run h cfg evs s0)"
    using run_without_callback [OF nc, of h cfg] c1 by simp
  with f s0 show ?thesis by simp
qed

theorem production_renderer_set_once_witness:
  "isProd ex_prod
   \<and> startup ex_prod ex_config = Inr ex_started
   \<and> created ex_started = 1
   \<and> renderer (run ex_prod ex_config
        [Get ex_request, Built (JStr ''rebuilt'') [], Get ex_request] ex_started)
       = renderer ex_started
   \<and> created (run ex_prod ex_config
        [Get ex_request, Built (JStr ''rebuilt'') [], Get ex_request] ex_started) = 1"
proof -
  have p: "isProd ex_prod"
    by (simp add: isProd_def ex_prod_def)
  have "resolve ex_prod ex_config (template ex_config) = ''/app/index.html''"
    by (simp add: resolve_def ex_prod_def ex_config_def)
  then have st: "startup ex_prod ex_config = Inr ex_started"
    using p by (simp add: startup_def Let_def ex_started_def)
      (simp add: resolve_def ex_prod_def ex_config_def)
  from production_renderer_set_once [OF p st] p st show ?thesis
    by blast
qed

text \<open>
  C10. The micro-cache is switched off by the exact value \<^verbatim>\<open>"false"\<close> of \<^verbatim>\<open>MICRO_CACHE\<close>
  and by nothing else: for any other value, and when the variable is unset, the flag is
  on and the cache key of a request is its \<^verbatim>\<open>originalUrl\<close>.
\<close>

theorem useMicroCache_only_exact_false:
  "(MICRO_CACHE h \<noteq> Some ''false'' \<longrightarrow>
      useMicroCache h \<and> microcache_key h req = JStr (originalUrl req))
   \<and> (MICRO_CACHE h = Some ''false'' \<longrightarrow> \<not> useMicroCache h)"
  by (simp add: useMicroCache_def microcache_key_def js_and_def)

theorem useMicroCache_only_exact_false_witness:
  "useMicroCache (ex_prod\<lparr>MICRO_CACHE := Some ''False''\<rparr>)
   \<and> useMicroCache (ex_prod\<lparr>MICRO_CACHE := Some ''FALSE''\<rparr>)
   \<and> useMicroCache (ex_prod\<lparr>MICRO_CACHE := Some ''0''\<rparr>)
   \<and> useMicroCache (ex_prod\<lparr>MICRO_CACHE := None\<rparr>)
   \<and> microcache_key (ex_prod\<lparr>MICRO_CACHE := Some ''0''\<rparr>) ex_request = JStr ''/a''
   \<and> \<not> useMicroCache (ex_prod\<lparr>MICRO_CACHE := Some ''false''\<rparr>)"
  using useMicroCache_only_exact_false [of "ex_prod\<lparr>MICRO_CACHE := Some ''False''\<rparr>" ex_request]
    useMicroCache_only_exact_false [of "ex_prod\<lparr>MICRO_CACHE := Some ''FALSE''\<rparr>" ex_request]
    useMicroCache_only_exact_false [of "ex_prod\<lparr>MICRO_CACHE := Some ''0''\<rparr>" ex_request]
    useMicroCache_only_exact_false [of "ex_prod\<lparr>MICRO_CACHE := None\<rparr>" ex_request]
    useMicroCache_only_exact_false [of "ex_prod\<lparr>MICRO_CACHE := Some ''false''\<rparr>" ex_request]
  by (simp add: ex_request_def)

end
